theory Spec2Isabelle
  imports Complex_Main "HOL-Library.AList"
begin

section \<open>The program\<close>

subsection \<open>JavaScript values\<close>

text \<open>
  The object utilities of \<^verbatim>\<open>src/utils/object/index.ts\<close> take and return values of
  type \<^verbatim>\<open>any\<close>. A value is a primitive, an array or a plain object. Arrays and objects
  carry the reference they live at, because \<^verbatim>\<open>===\<close> compares two of them by
  reference and not by content. A plain object is the list of its own enumerable
  properties; its prototype is \<^verbatim>\<open>Object.prototype\<close>. The list says which properties
  the object has; JavaScript enumerates integer-like keys first, which changes the
  order of a result and nothing else here. The built-in functions and prototype
  objects are not values of the model: a read that finds one has the outcome
  \<open>BuiltIn\<close>.

  The functions below test a number for truthiness and compare numbers with
  \<^verbatim>\<open>===\<close> only, so a number is \<open>NaN\<close> or a finite value, and the finite values are
  taken from \<open>int\<close>.
\<close>

type_synonym ref = nat

datatype jsval =
    Undefined
  | Null
  | Bool bool
  | Num int
  | NaN
  | Str string
  | Arr ref "jsval list"
  | Obj ref "(string \<times> jsval) list"

datatype jstype = TUndefined | TObject | TBoolean | TNumber | TString

text \<open>
  The outcomes other than a value of the model. \<open>TypeError\<close> and \<open>SyntaxError\<close> are the
  exceptions that JavaScript throws. \<open>BuiltIn\<close>: the result is a built-in function or
  prototype object, inherited through the prototype chain. \<open>OutsideModel\<close>: the model
  does not say what happens. That is so after a write whose result is an array that
  is not a list (a hole, a named property or a new \<^verbatim>\<open>length\<close>), after a write that
  changes the prototype of an object, for a read or a write on a built-in value, for
  a read that may find a method of the prototype of arrays or of strings, and for a
  regular expression with more than character classes and literal characters.
\<close>

datatype error = TypeError | SyntaxError | BuiltIn | OutsideModel

fun typeof :: "jsval \<Rightarrow> jstype" where
  "typeof Undefined = TUndefined"
| "typeof Null = TObject"
| "typeof (Bool b) = TBoolean"
| "typeof (Num n) = TNumber"
| "typeof NaN = TNumber"
| "typeof (Str s) = TString"
| "typeof (Arr r xs) = TObject"
| "typeof (Obj r kvs) = TObject"

text \<open>The truth value of \<open>v\<close> in a condition, in \<^verbatim>\<open>v && e\<close> and in \<^verbatim>\<open>v || e\<close>.\<close>

fun truthy :: "jsval \<Rightarrow> bool" where
  "truthy Undefined = False"
| "truthy Null = False"
| "truthy (Bool b) = b"
| "truthy (Num n) = (n \<noteq> 0)"
| "truthy NaN = False"
| "truthy (Str s) = (s \<noteq> [])"
| "truthy (Arr r xs) = True"
| "truthy (Obj r kvs) = True"

text \<open>The decimal name of an array index: \<^verbatim>\<open>String(i)\<close>.\<close>

fun index_key :: "nat \<Rightarrow> string" where
  "index_key n =
     (if n < 10 then [''0123456789'' ! n]
      else index_key (n div 10) @ [''0123456789'' ! (n mod 10)])"

declare index_key.simps [simp del]

text \<open>
  The own enumerable properties of a value, in the order \<^verbatim>\<open>for ... in\<close>,
  \<^verbatim>\<open>Object.keys\<close> and the spread \<^verbatim>\<open>{ ...v }\<close> visit them. An array has its indices,
  a string its character positions, the other primitives have none.
\<close>

fun own_props :: "jsval \<Rightarrow> (string \<times> jsval) list" where
  "own_props (Obj r kvs) = kvs"
| "own_props (Arr r xs) = zip (map index_key [0..<length xs]) xs"
| "own_props (Str s) = zip (map index_key [0..<length s]) (map (\<lambda>c. Str [c]) s)"
| "own_props v = []"

definition keys :: "jsval \<Rightarrow> string list" where
  "keys v = map fst (own_props v)"

text \<open>
  The value of the own property \<open>k\<close> of \<open>v\<close>, the \<^verbatim>\<open>length\<close> of an array or a string
  included: the read \<^verbatim>\<open>v[k]\<close> where \<open>v\<close> owns \<open>k\<close>. It is \<^verbatim>\<open>undefined\<close> when \<open>v\<close> does
  not own \<open>k\<close>.
\<close>

fun value_at :: "jsval \<Rightarrow> string \<Rightarrow> jsval" where
  "value_at (Arr r xs) k =
     (if k = ''length'' then Num (int (length xs))
      else (case map_of (own_props (Arr r xs)) k of Some x \<Rightarrow> x | None \<Rightarrow> Undefined))"
| "value_at (Str s) k =
     (if k = ''length'' then Num (int (length s))
      else (case map_of (own_props (Str s)) k of Some x \<Rightarrow> x | None \<Rightarrow> Undefined))"
| "value_at v k = (case map_of (own_props v) k of Some x \<Rightarrow> x | None \<Rightarrow> Undefined)"

text \<open>Whether \<open>v\<close> owns the property \<open>k\<close>.\<close>

fun owns :: "jsval \<Rightarrow> string \<Rightarrow> bool" where
  "owns (Arr r xs) k = (k = ''length'' \<or> k \<in> set (keys (Arr r xs)))"
| "owns (Str s) k = (k = ''length'' \<or> k \<in> set (keys (Str s)))"
| "owns v k = (k \<in> set (keys v))"

text \<open>
  The properties of \<^verbatim>\<open>Object.prototype\<close>, which every object inherits:
  \<^verbatim>\<open>__proto__\<close> is an accessor, the others are functions.
\<close>

definition object_prototype_names :: "string list" where
  "object_prototype_names =
     [''constructor'', ''hasOwnProperty'', ''isPrototypeOf'', ''propertyIsEnumerable'',
      ''toLocaleString'', ''toString'', ''valueOf'', ''__proto__'',
      ''__defineGetter__'', ''__defineSetter__'', ''__lookupGetter__'', ''__lookupSetter__'']"

definition letters_only :: "string \<Rightarrow> bool" where
  "letters_only k =
     (k \<noteq> [] \<and>
      list_all (\<lambda>c. c \<in> set ''abcdefghijklmnopqrstuvwxyzABCDEFGHIJKLMNOPQRSTUVWXYZ'') k)"

definition number_prototype_names :: "string list" where
  "number_prototype_names = [''toExponential'', ''toFixed'', ''toPrecision'']"

text \<open>
  What the prototype chain holds under a name that \<open>v\<close> does not own. A plain object
  inherits from \<^verbatim>\<open>Object.prototype\<close> only. A boolean inherits from
  \<^verbatim>\<open>Boolean.prototype\<close>, which has no name that \<^verbatim>\<open>Object.prototype\<close> has not, and a
  number from \<^verbatim>\<open>Number.prototype\<close>, which has three more. Arrays and strings
  inherit from a prototype of their own as well, whose methods have names made of
  letters and differ between versions of the language: under such a name the model
  does not say what the read finds.
\<close>

fun inherited :: "jsval \<Rightarrow> string \<Rightarrow> error option" where
  "inherited (Obj r kvs) k = (if k \<in> set object_prototype_names then Some BuiltIn else None)"
| "inherited (Bool b) k = (if k \<in> set object_prototype_names then Some BuiltIn else None)"
| "inherited (Num n) k =
     (if k \<in> set (object_prototype_names @ number_prototype_names) then Some BuiltIn else None)"
| "inherited NaN k =
     (if k \<in> set (object_prototype_names @ number_prototype_names) then Some BuiltIn else None)"
| "inherited v k =
     (if k \<in> set object_prototype_names then Some BuiltIn
      else if letters_only k then Some OutsideModel
      else None)"

text \<open>
  The read \<^verbatim>\<open>v[k]\<close>: it throws on \<^verbatim>\<open>null\<close> and \<^verbatim>\<open>undefined\<close>, gives the own property
  when there is one, what the prototype chain holds otherwise, and \<^verbatim>\<open>undefined\<close> when
  the chain holds nothing.
\<close>

fun get_prop :: "jsval \<Rightarrow> string \<Rightarrow> error + jsval" where
  "get_prop Undefined k = Inl TypeError"
| "get_prop Null k = Inl TypeError"
| "get_prop v k =
     (if owns v k then Inr (value_at v k)
      else (case inherited v k of Some e \<Rightarrow> Inl e | None \<Rightarrow> Inr Undefined))"

text \<open>
  The assignment \<^verbatim>\<open>o[k] = v\<close> on the properties of a plain object. The object gets or
  replaces its own property, but for the name \<^verbatim>\<open>__proto__\<close> when the object does not
  own it: then the assignment reaches the setter inherited from \<^verbatim>\<open>Object.prototype\<close>,
  which makes an object or \<^verbatim>\<open>null\<close> the prototype and ignores any other value.
  \<open>is_proto\<close> says whether the value is an object or \<^verbatim>\<open>null\<close>.
\<close>

definition assign_prop :: "bool \<Rightarrow> (string \<times> 'v) list \<Rightarrow> string \<Rightarrow> 'v \<Rightarrow> error + (string \<times> 'v) list" where
  "assign_prop is_proto kvs k v =
     (if k = ''__proto__'' \<and> k \<notin> fst ` set kvs
      then (if is_proto then Inl OutsideModel else Inr kvs)
      else Inr (AList.update k v kvs))"

text \<open>
  \<^verbatim>\<open>s.split(c)\<close> for a one-character separator: the pieces between the occurrences
  of \<open>c\<close>; there is always at least one piece.
\<close>

fun split_on :: "char \<Rightarrow> string \<Rightarrow> string list" where
  "split_on c [] = [[]]"
| "split_on c (x # xs) =
     (if x = c then [] # split_on c xs
      else (case split_on c xs of [] \<Rightarrow> [[x]] | w # ws \<Rightarrow> (x # w) # ws))"


subsection \<open>getNestedValue\<close>

text \<open>
  \<^verbatim>\<open>path.split('.').reduce((acc, part) => acc && acc[part], obj)\<close>.
  The callback returns \<open>acc\<close> itself when \<open>acc\<close> is falsy, and reads the property
  otherwise. An exception ends the walk. When \<open>acc\<close> is a built-in value the walk goes
  on inside it, where the model does not follow.
\<close>

definition getNestedValue_step :: "error + jsval \<Rightarrow> string \<Rightarrow> error + jsval" where
  "getNestedValue_step acc part =
     (case acc of
        Inl e \<Rightarrow> if e = BuiltIn then Inl OutsideModel else Inl e
      | Inr a \<Rightarrow> if truthy a then get_prop a part else Inr a)"

definition getNestedValue :: "jsval \<Rightarrow> string \<Rightarrow> error + jsval" where
  "getNestedValue obj path = foldl getNestedValue_step (Inr obj) (split_on CHR ''.'' path)"


subsection \<open>deepEqual\<close>

text \<open>
  \<^verbatim>\<open>a === b\<close>: primitives are compared by value, and \<open>NaN\<close> is equal to nothing;
  arrays and objects are compared by reference.
\<close>

fun strict_equals :: "jsval \<Rightarrow> jsval \<Rightarrow> bool" where
  "strict_equals Undefined Undefined = True"
| "strict_equals Null Null = True"
| "strict_equals (Bool a) (Bool b) = (a = b)"
| "strict_equals (Num a) (Num b) = (a = b)"
| "strict_equals (Str a) (Str b) = (a = b)"
| "strict_equals (Arr r xs) (Arr r' ys) = (r = r')"
| "strict_equals (Obj r kvs) (Obj r' kvs') = (r = r')"
| "strict_equals a b = False"

text \<open>A property of an array or an object is a smaller value than its holder.\<close>

lemma size_map_of: "map_of kvs k = Some v \<Longrightarrow> size v < Suc (size_list (size_prod (\<lambda>_. 0) size) kvs)"
  by (induction kvs) (auto split: if_splits)

lemma size_map_of_zip: "map_of (zip ks xs) k = Some v \<Longrightarrow> size v < Suc (size_list size xs)"
proof -
  assume "map_of (zip ks xs) k = Some v"
  then have "v \<in> set xs" by (auto dest: map_of_SomeD set_zip_rightD)
  then have "size v \<le> size_list size xs" by (simp add: size_list_estimation')
  then show ?thesis by simp
qed

lemma size_value_at: "typeof a = TObject \<Longrightarrow> a \<noteq> Null \<Longrightarrow> size (value_at a k) < size a"
proof (cases a)
  case (Arr r xs)
  then show ?thesis by (auto split: option.split intro: size_map_of_zip)
next
  case (Obj r kvs)
  then show ?thesis by (auto split: option.split intro: size_map_of)
qed simp_all

text \<open>
  The source returns \<open>true\<close> for strictly equal arguments, \<open>false\<close> when one of them is
  not a non-null \<^verbatim>\<open>typeof ... === 'object'\<close> value or when the numbers of keys differ,
  and otherwise walks \<^verbatim>\<open>Object.keys(obj1)\<close>, returning \<open>false\<close> at the first key that
  \<open>obj2\<close> lacks or whose values are not deep-equal.
\<close>

function deepEqual :: "jsval \<Rightarrow> jsval \<Rightarrow> bool" where
  "deepEqual obj1 obj2 =
     (if strict_equals obj1 obj2 then True
      else if typeof obj1 \<noteq> TObject \<or> obj1 = Null \<or> typeof obj2 \<noteq> TObject \<or> obj2 = Null
      then False
      else
        let keys1 = keys obj1; keys2 = keys obj2 in
        if length keys1 \<noteq> length keys2 then False
        else list_all (\<lambda>key. key \<in> set keys2 \<and> deepEqual (value_at obj1 key) (value_at obj2 key)) keys1)"
  by pat_completeness auto

termination
proof (relation "measure (\<lambda>(a, b). size a)")
  show "wf (measure (\<lambda>(a, b). size a))" by simp
next
  fix obj1 obj2 :: jsval and x xa :: "string list" and xb :: string
  assume "\<not> (typeof obj1 \<noteq> TObject \<or> obj1 = Null \<or> typeof obj2 \<noteq> TObject \<or> obj2 = Null)"
  then have "size (value_at obj1 xb) < size obj1" by (simp add: size_value_at)
  then show "((value_at obj1 xb, value_at obj2 xb), (obj1, obj2)) \<in> measure (\<lambda>(a, b). size a)"
    by simp
qed

declare deepEqual.simps [simp del]

text \<open>
  An association list stands for an object only when no key occurs twice in it;
  \<open>wf_val\<close> says so of a value and of every value nested in it. \<open>key_index\<close> reads a
  decimal name back; it is the inverse of \<open>index_key\<close>, which shows that an array
  never has a key twice.
\<close>

fun wf_val :: "jsval \<Rightarrow> bool" where
  "wf_val (Obj r kvs) = (distinct (map fst kvs) \<and> list_all wf_val (map snd kvs))"
| "wf_val (Arr r xs) = list_all wf_val xs"
| "wf_val v = True"

fun digit_value :: "char \<Rightarrow> nat" where
  "digit_value c = of_char c - 48"

definition key_index :: "string \<Rightarrow> nat" where
  "key_index s = foldl (\<lambda>a c. 10 * a + digit_value c) 0 s"


subsection \<open>deepMerge\<close>

text \<open>
  The call \<^verbatim>\<open>v.hasOwnProperty(k)\<close>. It throws on \<^verbatim>\<open>null\<close> and \<^verbatim>\<open>undefined\<close>. It looks the
  method up on \<open>v\<close>: an object that owns a property named \<^verbatim>\<open>hasOwnProperty\<close> hides the
  inherited method by a value of the model, none of which is a function, and the call
  throws. Otherwise the method of \<^verbatim>\<open>Object.prototype\<close> answers whether \<open>v\<close> owns \<open>k\<close>.
\<close>

fun has_own :: "jsval \<Rightarrow> string \<Rightarrow> error + bool" where
  "has_own Undefined k = Inl TypeError"
| "has_own Null k = Inl TypeError"
| "has_own v k = (if owns v ''hasOwnProperty'' then Inl TypeError else Inr (owns v k))"

text \<open>
  The assignment \<^verbatim>\<open>output[key] = v\<close> in the loop of \<open>deepMerge\<close>, on the properties of
  \<open>output\<close> and the next free reference.
\<close>

definition store_output ::
  "(string \<times> jsval) list \<Rightarrow> string \<Rightarrow> jsval \<Rightarrow> ref \<Rightarrow> error + (string \<times> jsval) list \<times> ref" where
  "store_output output key v c =
     (case assign_prop (typeof v = TObject) output key v of
        Inl e \<Rightarrow> Inl e
      | Inr output' \<Rightarrow> Inr (output', c))"

lemma size_value_at_object:
  "truthy (value_at s k) \<Longrightarrow> typeof (value_at s k) = TObject \<Longrightarrow> size (value_at s k) < size s"
proof (cases "typeof s = TObject \<and> s \<noteq> Null")
  case True
  then show ?thesis by (simp add: size_value_at)
next
  case False
  assume "truthy (value_at s k)" "typeof (value_at s k) = TObject"
  with False show ?thesis
    by (cases s) (auto split: option.splits if_splits dest!: map_of_SomeD set_zip_rightD)
qed

text \<open>
  \<^verbatim>\<open>const output = { ...target }\<close> allocates a new plain object, at the next free
  reference \<open>c\<close>, with the own enumerable properties of \<open>target\<close>. The loop
  \<^verbatim>\<open>for (const key in source)\<close> then stores into \<open>output\<close> either the recursive merge
  of the two values or the value of the source. The reads are reads of own
  properties: \<^verbatim>\<open>source[key]\<close> for a key that the loop enumerates, and \<^verbatim>\<open>target[key]\<close>
  after \<^verbatim>\<open>target.hasOwnProperty(key)\<close> has answered true. The state of the loop is
  \<open>output\<close> and the next free reference, or the exception that ended it. The function
  returns \<open>output\<close> and the next free reference.
\<close>

function deepMerge :: "ref \<Rightarrow> jsval \<Rightarrow> jsval \<Rightarrow> error + jsval \<times> ref" where
  "deepMerge c target source =
     (case fold
        (\<lambda>key acc.
           case acc of
             Inl e \<Rightarrow> Inl e
           | Inr (output, c1) \<Rightarrow>
               let sv = value_at source key in
               if truthy sv \<and> typeof sv = TObject then
                 (case has_own target key of
                    Inl e \<Rightarrow> Inl e
                  | Inr own \<Rightarrow>
                      if own \<and> truthy (value_at target key) \<and> typeof (value_at target key) = TObject then
                        (case deepMerge c1 (value_at target key) sv of
                           Inl e \<Rightarrow> Inl e
                         | Inr (merged, c2) \<Rightarrow> store_output output key merged c2)
                      else store_output output key sv c1)
               else store_output output key sv c1)
        (keys source) (Inr (own_props target, Suc c)) of
        Inl e \<Rightarrow> Inl e
      | Inr (output, c') \<Rightarrow> Inr (Obj c output, c'))"
  by pat_completeness auto

termination
proof (relation "measure (\<lambda>(c, t, s). size s)")
  show "wf (measure (\<lambda>(c, t, s). size s))" by simp
next
  fix c :: ref and target source :: jsval and key :: string and sv :: jsval and c1 :: ref
  assume "sv = value_at source key" "truthy sv \<and> typeof sv = TObject"
  then have "size sv < size source" by (simp add: size_value_at_object)
  then show "((c1, value_at target key, sv), (c, target, source)) \<in> measure (\<lambda>(c, t, s). size s)"
    by simp
qed

declare deepMerge.simps [simp del]

text \<open>
  The test \<^verbatim>\<open>v && typeof v === 'object'\<close> of the source, which arrays and plain objects
  pass, and the body of the loop under a name of its own, for the proofs.
\<close>

definition is_object :: "jsval \<Rightarrow> bool" where
  "is_object v = (truthy v \<and> typeof v = TObject)"

type_synonym merge_state = "error + (string \<times> jsval) list \<times> ref"

definition merge_key :: "jsval \<Rightarrow> jsval \<Rightarrow> string \<Rightarrow> merge_state \<Rightarrow> merge_state" where
  "merge_key target source key acc =
     (case acc of
        Inl e \<Rightarrow> Inl e
      | Inr (output, c1) \<Rightarrow>
          let sv = value_at source key in
          if truthy sv \<and> typeof sv = TObject then
            (case has_own target key of
               Inl e \<Rightarrow> Inl e
             | Inr own \<Rightarrow>
                 if own \<and> truthy (value_at target key) \<and> typeof (value_at target key) = TObject then
                   (case deepMerge c1 (value_at target key) sv of
                      Inl e \<Rightarrow> Inl e
                    | Inr (merged, c2) \<Rightarrow> store_output output key merged c2)
                 else store_output output key sv c1)
          else store_output output key sv c1)"




subsection \<open>deepMerge on a store\<close>

text \<open>
  Whether \<open>deepMerge\<close> mutates its arguments is a question about the objects in
  memory, so here the objects live in a store: a list of cells, the reference of an
  object being its position. A value is a primitive or a reference. Allocation
  appends a cell.
\<close>

datatype sval = VUndefined | VNull | VBool bool | VNum int | VNaN | VStr string | VRef ref

datatype cell = ObjectCell "(string \<times> sval) list" | ArrayCell "sval list"

type_synonym store = "cell list"

fun s_typeof :: "sval \<Rightarrow> jstype" where
  "s_typeof VUndefined = TUndefined"
| "s_typeof VNull = TObject"
| "s_typeof (VBool b) = TBoolean"
| "s_typeof (VNum n) = TNumber"
| "s_typeof VNaN = TNumber"
| "s_typeof (VStr s) = TString"
| "s_typeof (VRef r) = TObject"

fun s_truthy :: "sval \<Rightarrow> bool" where
  "s_truthy VUndefined = False"
| "s_truthy VNull = False"
| "s_truthy (VBool b) = b"
| "s_truthy (VNum n) = (n \<noteq> 0)"
| "s_truthy VNaN = False"
| "s_truthy (VStr s) = (s \<noteq> [])"
| "s_truthy (VRef r) = True"

text \<open>Reads through the store; they follow \<open>own_props\<close>, \<open>value_at\<close>, \<open>owns\<close> and
  \<open>has_own\<close>.\<close>

definition cell_at :: "store \<Rightarrow> ref \<Rightarrow> cell option" where
  "cell_at h r = (if r < length h then Some (h ! r) else None)"

fun cell_props :: "cell \<Rightarrow> (string \<times> sval) list" where
  "cell_props (ObjectCell kvs) = kvs"
| "cell_props (ArrayCell xs) = zip (map index_key [0..<length xs]) xs"

fun s_own_props :: "store \<Rightarrow> sval \<Rightarrow> (string \<times> sval) list" where
  "s_own_props h (VRef r) = (case cell_at h r of Some c \<Rightarrow> cell_props c | None \<Rightarrow> [])"
| "s_own_props h (VStr s) = zip (map index_key [0..<length s]) (map (\<lambda>c. VStr [c]) s)"
| "s_own_props h v = []"

definition has_length :: "store \<Rightarrow> sval \<Rightarrow> nat option" where
  "has_length h v =
     (case v of
        VStr s \<Rightarrow> Some (length s)
      | VRef r \<Rightarrow> (case cell_at h r of Some (ArrayCell xs) \<Rightarrow> Some (length xs) | _ \<Rightarrow> None)
      | _ \<Rightarrow> None)"

definition s_value_at :: "store \<Rightarrow> sval \<Rightarrow> string \<Rightarrow> sval" where
  "s_value_at h v k =
     (case (if k = ''length'' then has_length h v else None) of
        Some n \<Rightarrow> VNum (int n)
      | None \<Rightarrow> (case map_of (s_own_props h v) k of Some x \<Rightarrow> x | None \<Rightarrow> VUndefined))"

definition s_owns :: "store \<Rightarrow> sval \<Rightarrow> string \<Rightarrow> bool" where
  "s_owns h v k = ((k = ''length'' \<and> has_length h v \<noteq> None) \<or> k \<in> fst ` set (s_own_props h v))"

definition s_has_own :: "store \<Rightarrow> sval \<Rightarrow> string \<Rightarrow> error + bool" where
  "s_has_own h v k =
     (if v = VUndefined \<or> v = VNull \<or> s_owns h v ''hasOwnProperty'' then Inl TypeError
      else Inr (s_owns h v k))"

text \<open>
  The state of the loop \<^verbatim>\<open>for (const key in source)\<close>: the store and the exception that
  ended the loop, if any; \<open>None\<close> when a recursive call did not return.
  \<open>store_put\<close> is the assignment \<^verbatim>\<open>output[key] = v\<close> to a plain object, which is what
  \<^verbatim>\<open>{ ...target }\<close> makes of any target; it follows \<open>store_output\<close>. After an
  assignment that changes the prototype of \<open>output\<close> the model stops, with the store
  as it is then.
\<close>

type_synonym loop_state = "(store \<times> error option) option"

definition store_put :: "store \<Rightarrow> ref \<Rightarrow> string \<Rightarrow> sval \<Rightarrow> loop_state" where
  "store_put h r k v =
     (case cell_at h r of
        Some (ObjectCell kvs) \<Rightarrow>
          (case assign_prop (s_typeof v = TObject) kvs k v of
             Inl e \<Rightarrow> Some (h, Some e)
           | Inr kvs' \<Rightarrow> Some (h[r := ObjectCell kvs'], None))
      | _ \<Rightarrow> Some (h, Some OutsideModel))"

text \<open>
  The body of the loop, for the object \<open>output\<close> and the recursive call \<open>rec_call\<close>. It
  reads \<^verbatim>\<open>source[key]\<close> and \<^verbatim>\<open>target[key]\<close> from the store as it is at that iteration.
\<close>

definition merge_key_st ::
  "(store \<Rightarrow> sval \<Rightarrow> sval \<Rightarrow> (store \<times> (error + sval)) option) \<Rightarrow>
   ref \<Rightarrow> sval \<Rightarrow> sval \<Rightarrow> string \<Rightarrow> loop_state \<Rightarrow> loop_state" where
  "merge_key_st rec_call output target source key acc =
     (case acc of
        None \<Rightarrow> None
      | Some (h, Some e) \<Rightarrow> Some (h, Some e)
      | Some (h, None) \<Rightarrow>
          let sv = s_value_at h source key in
          if s_truthy sv \<and> s_typeof sv = TObject then
            (case s_has_own h target key of
               Inl e \<Rightarrow> Some (h, Some e)
             | Inr own \<Rightarrow>
                 if own \<and> s_truthy (s_value_at h target key) \<and> s_typeof (s_value_at h target key) = TObject then
                   (case rec_call h (s_value_at h target key) sv of
                      None \<Rightarrow> None
                    | Some (h', Inl e) \<Rightarrow> Some (h', Some e)
                    | Some (h', Inr merged) \<Rightarrow> store_put h' output key merged)
                 else store_put h output key sv)
          else store_put h output key sv)"

text \<open>
  \<open>deepMerge\<close> itself, with fuel for the depth of the recursion: on a cyclic source
  the recursion does not end, and the model returns \<open>None\<close> for any fuel.
  \<^verbatim>\<open>{ ...target }\<close> allocates \<open>output\<close>; the keys of the source are taken when the loop
  starts. The result is the final store and the reference of \<open>output\<close>, or the
  exception.
\<close>

primrec deepMerge_st :: "nat \<Rightarrow> store \<Rightarrow> sval \<Rightarrow> sval \<Rightarrow> (store \<times> (error + sval)) option" where
  "deepMerge_st 0 h target source = None"
| "deepMerge_st (Suc n) h target source =
     (let output = length h;
          h0 = h @ [ObjectCell (s_own_props h target)]
      in case fold (merge_key_st (deepMerge_st n) output target source)
                (map fst (s_own_props h0 source)) (Some (h0, None)) of
           None \<Rightarrow> None
         | Some (h', Some e) \<Rightarrow> Some (h', Inl e)
         | Some (h', None) \<Rightarrow> Some (h', Inr (VRef output)))"







subsection \<open>setNestedValue\<close>





fun is_mapping :: "jsval \<Rightarrow> bool" where
  "is_mapping (Obj r kvs) = True"
| "is_mapping v = False"

fun passable :: "jsval \<Rightarrow> string list \<Rightarrow> bool" where
  "passable current [] = True"
| "passable current [part] = is_mapping current"
| "passable current (part # rest) =
     (is_mapping current \<and>
      (if truthy (value_at current part) then passable (value_at current part) rest else True))"



subsection \<open>String case conversion\<close>

text \<open>
  The string utilities of \<^verbatim>\<open>src/utils/string/index.ts\<close>. A string is the list of its
  UTF-16 code units. \<^verbatim>\<open>str.split(/[\s_-]+/)\<close> cuts the string at every maximal run
  of separators: the white space and the line terminators of JavaScript, which
  \<^verbatim>\<open>\s\<close> matches, the underscore and the hyphen.
\<close>

type_synonym utf16 = "nat list"

definition is_separator :: "nat \<Rightarrow> bool" where
  "is_separator c =
     (c \<in> set [0x09, 0x0A, 0x0B, 0x0C, 0x0D, 0x20, 0xA0, 0x1680, 0x2028, 0x2029, 0x202F, 0x205F,
               0x3000, 0xFEFF]
      \<or> (0x2000 \<le> c \<and> c \<le> 0x200A) \<or> c = 0x5F \<or> c = 0x2D)"

function splitIntoWords :: "utf16 \<Rightarrow> utf16 list" where
  "splitIntoWords [] = [[]]"
| "splitIntoWords (c # cs) =
     (if is_separator c then [] # splitIntoWords (dropWhile is_separator cs)
      else (case splitIntoWords cs of [] \<Rightarrow> [[c]] | w # ws \<Rightarrow> (c # w) # ws))"
  by pat_completeness auto

termination
  by (relation "measure length") (auto simp: length_dropWhile_le less_Suc_eq_le)

text \<open>\<^verbatim>\<open>words.join(sep)\<close>.\<close>

fun join :: "utf16 \<Rightarrow> utf16 list \<Rightarrow> utf16" where
  "join sep [] = []"
| "join sep [w] = w"
| "join sep (w # ws) = w @ sep @ join sep ws"

text \<open>
  \<open>toSentenceCase\<close>. The methods \<^verbatim>\<open>String.prototype.toUpperCase\<close> and
  \<^verbatim>\<open>String.prototype.toLowerCase\<close> follow the case mappings of Unicode, which are
  not part of the program: they are the parameters \<open>toUpperCase\<close> and \<open>toLowerCase\<close>.
  \<^verbatim>\<open>words[0].charAt(0)\<close> is the first code unit as a string, the empty string when
  there is none, and \<^verbatim>\<open>words[0].slice(1)\<close> is the rest. \<^verbatim>\<open>split\<close> returns at least one
  word; on no word at all \<^verbatim>\<open>words[0].charAt\<close> would throw.
\<close>

definition toSentenceCase :: "(utf16 \<Rightarrow> utf16) \<Rightarrow> (utf16 \<Rightarrow> utf16) \<Rightarrow> utf16 \<Rightarrow> error + utf16" where
  "toSentenceCase toUpperCase toLowerCase str =
     (let words = splitIntoWords str in
      case words of
        [] \<Rightarrow> Inl TypeError
      | w # rest \<Rightarrow>
          Inr (toUpperCase (take 1 w) @ toLowerCase (drop 1 w) @ [0x20] @ toLowerCase (join [0x20] rest)))"

text \<open>
  What the two methods do to a string of ASCII characters: they map the letters
  \<^verbatim>\<open>a\<close> to \<^verbatim>\<open>z\<close> and \<^verbatim>\<open>A\<close> to \<^verbatim>\<open>Z\<close>. These two functions stand for the methods in
  examples with ASCII strings only.
\<close>

definition ascii_upper :: "utf16 \<Rightarrow> utf16" where
  "ascii_upper s = map (\<lambda>c. if 0x61 \<le> c \<and> c \<le> 0x7A then c - 0x20 else c) s"

definition ascii_lower :: "utf16 \<Rightarrow> utf16" where
  "ascii_lower s = map (\<lambda>c. if 0x41 \<le> c \<and> c \<le> 0x5A then c + 0x20 else c) s"


subsection \<open>generateUUID\<close>

text \<open>
  \<^verbatim>\<open>v.toString(16)\<close> of an integer, and \<^verbatim>\<open>x | 0\<close>: the number is truncated towards
  zero and wrapped into the signed 32-bit range.
\<close>

unbundle bit_operations_syntax

definition hex_digits :: string where
  "hex_digits = ''0123456789abcdef''"

fun hex_of_nat :: "nat \<Rightarrow> string" where
  "hex_of_nat n =
     (if n < 16 then [hex_digits ! n]
      else hex_of_nat (n div 16) @ [hex_digits ! (n mod 16)])"

declare hex_of_nat.simps [simp del]

definition toString16 :: "int \<Rightarrow> string" where
  "toString16 v = (if v < 0 then CHR ''-'' # hex_of_nat (nat (- v)) else hex_of_nat (nat v))"

definition to_int32 :: "real \<Rightarrow> int" where
  "to_int32 x =
     (let t = (if x < 0 then \<lceil>x\<rceil> else \<lfloor>x\<rfloor>);
          m = t mod 2 ^ 32
      in if m \<ge> 2 ^ 31 then m - 2 ^ 32 else m)"

text \<open>
  The callback of \<^verbatim>\<open>replace(/[xy]/g, ...)\<close>, given the result \<open>x\<close> of its call of
  \<^verbatim>\<open>Math.random()\<close> and the matched character. \<open>replace_xy\<close> walks the template from the
  left; \<open>random n\<close> is the result of the \<open>n\<close>-th call of \<^verbatim>\<open>Math.random()\<close>, counted
  from 0.
\<close>

definition uuid_digit :: "real \<Rightarrow> char \<Rightarrow> string" where
  "uuid_digit x c =
     (let r = to_int32 (x * 16);
          v = (if c = CHR ''x'' then r else (r AND 0x3) OR 0x8)
      in toString16 v)"

fun replace_xy :: "(nat \<Rightarrow> real) \<Rightarrow> nat \<Rightarrow> string \<Rightarrow> string" where
  "replace_xy random n [] = []"
| "replace_xy random n (c # cs) =
     (if c = CHR ''x'' \<or> c = CHR ''y''
      then uuid_digit (random n) c @ replace_xy random (Suc n) cs
      else c # replace_xy random n cs)"

definition uuid_template :: string where
  "uuid_template = ''xxxxxxxx-xxxx-4xxx-yxxx-xxxxxxxxxxxx''"

definition generateUUID :: "(nat \<Rightarrow> real) \<Rightarrow> string" where
  "generateUUID random = replace_xy random 0 uuid_template"

text \<open>How a character of the result relates to the character of the template.\<close>

definition replaced :: "char \<Rightarrow> char \<Rightarrow> bool" where
  "replaced c d =
     (if c = CHR ''x'' then d \<in> set hex_digits
      else if c = CHR ''y'' then d \<in> set ''89ab''
      else d = c)"


subsection \<open>validatePassword\<close>

text \<open>
  A regular expression is a sequence of atoms, each a character class or a literal
  character; this covers the four expressions of \<open>validatePassword\<close>.
  \<open>new_RegExp\<close> reads the source of a pattern as JavaScript does without the \<^verbatim>\<open>u\<close>
  flag: \<^verbatim>\<open>[\<close> opens a class, which the first \<^verbatim>\<open>]\<close> that is not escaped closes; in
  a class, \<^verbatim>\<open>a-b\<close> is a range and a backslash escapes a character that is not a letter
  or a digit; outside a class, \<^verbatim>\<open>]\<close> is a literal character.
\<close>

datatype class_item = Single char | Between char char

datatype regex_atom = CharClass bool "class_item list" | Literal char

type_synonym regex = "regex_atom list"

definition code_unit :: "char \<Rightarrow> nat" where
  "code_unit c = of_char c"

text \<open>One class atom: a character, or a backslash and the character it escapes.\<close>

fun class_atom :: "string \<Rightarrow> error + char \<times> string" where
  "class_atom [] = Inl SyntaxError"
| "class_atom [c] = (if c = CHR 0x5C then Inl SyntaxError else Inr (c, []))"
| "class_atom (c # d # s) =
     (if c = CHR 0x5C then
        (if d \<in> set ''abcdefghijklmnopqrstuvwxyzABCDEFGHIJKLMNOPQRSTUVWXYZ0123456789''
         then Inl OutsideModel
         else Inr (d, s))
      else Inr (c, d # s))"

lemma class_atom_shorter: "class_atom s = Inr (a, s') \<Longrightarrow> length s' < length s"
  by (cases s rule: class_atom.cases) (auto split: if_splits)

function class_items :: "string \<Rightarrow> class_item list \<Rightarrow> error + class_item list \<times> string" where
  "class_items s acc =
     (case s of
        [] \<Rightarrow> Inl SyntaxError
      | c # rest \<Rightarrow>
          if c = CHR '']'' then Inr (rev acc, rest)
          else
            (case class_atom s of
               Inl e \<Rightarrow> Inl e
             | Inr (lo, s1) \<Rightarrow>
                 (case s1 of
                    d # e # s2 \<Rightarrow>
                      if d = CHR ''-'' \<and> e \<noteq> CHR '']'' then
                        (case class_atom (e # s2) of
                           Inl err \<Rightarrow> Inl err
                         | Inr (hi, s3) \<Rightarrow>
                             if code_unit hi < code_unit lo then Inl SyntaxError
                             else class_items s3 (Between lo hi # acc))
                      else class_items s1 (Single lo # acc)
                  | _ \<Rightarrow> class_items s1 (Single lo # acc))))"
  by pat_completeness auto

termination
proof (relation "measure (\<lambda>(s, acc). length s)", goal_cases)
  case 1
  then show ?case by simp
next
  case (2 s acc c rest x lo s1)
  then show ?case by (auto dest: class_atom_shorter)
next
  case (3 s acc c rest x lo s1 d list)
  then show ?case by (auto dest: class_atom_shorter)
next
  case (4 s acc c rest x lo s1 d list e s2 y hi s3)
  then show ?case by (auto dest!: class_atom_shorter)
next
  case (5 s acc c rest x lo s1 d list e s2)
  then show ?case by (auto dest: class_atom_shorter)
qed

declare class_items.simps [simp del]

fun pattern_atoms :: "nat \<Rightarrow> string \<Rightarrow> error + regex" where
  "pattern_atoms fuel [] = Inr []"
| "pattern_atoms 0 (c # s) = Inl OutsideModel"
| "pattern_atoms (Suc fuel) (c # s) =
     (if c = CHR ''['' then
        (case (if s \<noteq> [] \<and> hd s = CHR ''^'' then class_items (tl s) [] else class_items s []) of
           Inl e \<Rightarrow> Inl e
         | Inr (items, rest) \<Rightarrow>
             (case pattern_atoms fuel rest of
                Inl e \<Rightarrow> Inl e
              | Inr atoms \<Rightarrow> Inr (CharClass (s \<noteq> [] \<and> hd s = CHR ''^'') items # atoms)))
      else if c \<in> set ''^$.*+?()|{'' \<or> c = CHR 0x5C then Inl OutsideModel
      else
        (case pattern_atoms fuel s of
           Inl e \<Rightarrow> Inl e
         | Inr atoms \<Rightarrow> Inr (Literal c # atoms)))"

definition new_RegExp :: "string \<Rightarrow> error + regex" where
  "new_RegExp source = pattern_atoms (length source) source"

fun item_matches :: "class_item \<Rightarrow> char \<Rightarrow> bool" where
  "item_matches (Single d) c = (c = d)"
| "item_matches (Between lo hi) c = (code_unit lo \<le> code_unit c \<and> code_unit c \<le> code_unit hi)"

fun atom_matches :: "regex_atom \<Rightarrow> char \<Rightarrow> bool" where
  "atom_matches (CharClass negated items) c = (list_ex (\<lambda>i. item_matches i c) items \<noteq> negated)"
| "atom_matches (Literal d) c = (c = d)"

fun matches_at_start :: "regex \<Rightarrow> string \<Rightarrow> bool" where
  "matches_at_start [] s = True"
| "matches_at_start (a # as) [] = False"
| "matches_at_start (a # as) (c # s) = (atom_matches a c \<and> matches_at_start as s)"

fun regex_test :: "regex \<Rightarrow> string \<Rightarrow> bool" where
  "regex_test re [] = matches_at_start re []"
| "regex_test re (c # s) = (matches_at_start re (c # s) \<or> regex_test re s)"

record PasswordValidationConfig =
  minLength :: "int option"
  maxLength :: "int option"
  requireLowercase :: "bool option"
  requireUppercase :: "bool option"
  requireNumeric :: "bool option"
  requireSymbol :: "bool option"
  symbols :: "string option"
  onlyLatin :: "bool option"

definition default_to :: "'a \<Rightarrow> 'a option \<Rightarrow> 'a" where
  "default_to d v = (case v of None \<Rightarrow> d | Some x \<Rightarrow> x)"

definition lowercase_regex :: regex where
  "lowercase_regex = [CharClass False [Between CHR ''a'' CHR ''z'']]"

definition uppercase_regex :: regex where
  "uppercase_regex = [CharClass False [Between CHR ''A'' CHR ''Z'']]"

definition numeric_regex :: regex where
  "numeric_regex = [CharClass False [Between CHR ''0'' CHR ''9'']]"

definition non_latin_regex :: regex where
  "non_latin_regex =
     [CharClass True
        ([Between CHR ''a'' CHR ''z'', Between CHR ''A'' CHR ''Z'', Between CHR ''0'' CHR ''9'']
         @ map Single ''!@#$%^&*()-_+=<>?/[] '')]"

definition validatePassword :: "string \<Rightarrow> PasswordValidationConfig \<Rightarrow> error + bool" where
  "validatePassword password config =
     (let minLength' = default_to 8 (minLength config);
          maxLength' = default_to 64 (maxLength config);
          requireLowercase' = default_to True (requireLowercase config);
          requireUppercase' = default_to True (requireUppercase config);
          requireNumeric' = default_to True (requireNumeric config);
          requireSymbol' = default_to True (requireSymbol config);
          symbols' = default_to ''!@#$%^&*()-_+=<>?/[]'' (symbols config);
          onlyLatin' = default_to True (onlyLatin config)
      in
      if int (length password) < minLength' \<or> int (length password) > maxLength' then Inr False
      else if requireLowercase' \<and> \<not> regex_test lowercase_regex password then Inr False
      else if requireUppercase' \<and> \<not> regex_test uppercase_regex password then Inr False
      else if requireNumeric' \<and> \<not> regex_test numeric_regex password then Inr False
      else
        (case (if requireSymbol'
               then (case new_RegExp (''['' @ symbols' @ '']'') of
                       Inl e \<Rightarrow> Inl e
                     | Inr symbolPattern \<Rightarrow> Inr (regex_test symbolPattern password))
               else Inr True) of
           Inl e \<Rightarrow> Inl e
         | Inr has_symbol \<Rightarrow>
             if \<not> has_symbol then Inr False
             else if onlyLatin' \<and> regex_test non_latin_regex password then Inr False
             else Inr True))"

definition default_config :: PasswordValidationConfig where
  "default_config = \<lparr>minLength = None, maxLength = None, requireLowercase = None,
     requireUppercase = None, requireNumeric = None, requireSymbol = None,
     symbols = None, onlyLatin = None\<rparr>"

section \<open>Properties\<close>

subsection \<open>getNestedValue\<close>

text \<open>
  What the reducer does in general: once the walk holds a falsy value it keeps that
  value to the end, and no read throws, because a value is read only when it is
  truthy.
\<close>

lemma getNestedValue_step_falsy:
  "\<not> truthy a \<Longrightarrow> foldl getNestedValue_step (Inr a) parts = Inr a"
  by (induction parts) (simp_all add: getNestedValue_step_def)

lemma get_prop_truthy: "truthy a \<Longrightarrow> get_prop a part \<noteq> Inl TypeError"
  by (cases a) (auto split: option.splits if_splits)

lemma getNestedValue_step_no_throw:
  "acc \<noteq> Inl TypeError \<Longrightarrow> getNestedValue_step acc part \<noteq> Inl TypeError"
  by (cases acc) (auto simp: getNestedValue_step_def get_prop_truthy)

lemma getNestedValue_never_throws: "getNestedValue obj path \<noteq> Inl TypeError"
proof -
  have "foldl getNestedValue_step acc parts \<noteq> Inl TypeError" if "acc \<noteq> Inl TypeError"
    for acc parts
    using that by (induction parts arbitrary: acc) (simp_all add: getNestedValue_step_no_throw)
  then show ?thesis by (simp add: getNestedValue_def)
qed

text \<open>
  Claim C2. When the walk reaches a value that is absent or is not a traversable
  mapping, such as the primitive \<open>0\<close>, \<open>getNestedValue\<close> should return the absent marker
  \<^verbatim>\<open>undefined\<close>. On \<^verbatim>\<open>getNestedValue({a: 0}, 'a.b')\<close> the code returns the number \<open>0\<close>:
  \<^verbatim>\<open>acc && acc[part]\<close> is \<open>acc\<close> itself for a falsy \<open>acc\<close>.
\<close>

lemma getNestedValue_falsy_zero:
  "getNestedValue (Obj 0 [(''a'', Num 0)]) ''a.b'' = Inr (Num 0)"
  by (simp add: getNestedValue_def getNestedValue_step_def keys_def)


subsection \<open>deepEqual\<close>

text \<open>
  The names of two different indices differ: \<open>key_index\<close> reads back what
  \<open>index_key\<close> writes. So the keys of an array are distinct, as those of a well-formed
  object are.
\<close>

lemma digit_value_nth: "d < 10 \<Longrightarrow> digit_value (''0123456789'' ! d) = d"
proof -
  assume "d < 10"
  then consider "d = 0" | "d = 1" | "d = 2" | "d = 3" | "d = 4" | "d = 5" | "d = 6" | "d = 7" | "d = 8" | "d = 9"
    by atomize_elim arith
  then show ?thesis by cases simp_all
qed

lemma key_index_index_key: "key_index (index_key n) = n"
proof (induction n rule: index_key.induct)
  case (1 n)
  show ?case
  proof (cases "n < 10")
    case True
    then show ?thesis
      by (subst index_key.simps) (simp add: key_index_def digit_value_nth del: digit_value.simps)
  next
    case False
    with 1 have "key_index (index_key (n div 10)) = n div 10" by simp
    with False show ?thesis
      by (subst index_key.simps) (simp add: key_index_def digit_value_nth del: digit_value.simps)
  qed
qed

lemma inj_index_key: "inj index_key"
  by (rule inj_on_inverseI[where g = key_index]) (simp add: key_index_index_key)

lemma distinct_keys: "wf_val a \<Longrightarrow> distinct (keys a)"
  by (cases a) (simp_all add: keys_def distinct_map inj_index_key[THEN inj_on_subset])

lemma wf_val_value_at: "wf_val a \<Longrightarrow> wf_val (value_at a k)"
proof (cases a)
  case (Arr r xs)
  assume "wf_val a"
  with Arr show ?thesis
    by (auto simp: list_all_iff split: option.split dest!: map_of_SomeD set_zip_rightD)
next
  case (Obj r kvs)
  assume "wf_val a"
  with Obj show ?thesis
    by (auto simp: list_all_iff split: option.split dest!: map_of_SomeD)
qed (auto split: option.split dest!: map_of_SomeD set_zip_rightD)

text \<open>
  \<^verbatim>\<open>===\<close> is symmetric, and so is \<open>deepEqual\<close>: two key lists without repetition, of
  the same length, one contained in the other, hold the same keys.
\<close>

lemma strict_equals_sym: "strict_equals a b = strict_equals b a"
  by (cases a; cases b) auto

lemma deepEqual_sym_imp:
  "wf_val a \<Longrightarrow> wf_val b \<Longrightarrow> deepEqual a b \<Longrightarrow> deepEqual b a"
proof (induction a b rule: deepEqual.induct)
  case (1 a b)
  show ?case
  proof (cases "strict_equals a b")
    case True
    then have "strict_equals b a" by (simp add: strict_equals_sym)
    then show ?thesis by (subst deepEqual.simps) simp
  next
    case False
    with "1.prems"(3) have objs: "\<not> (typeof a \<noteq> TObject \<or> a = Null \<or> typeof b \<noteq> TObject \<or> b = Null)"
      and len: "length (keys a) = length (keys b)"
      and all: "\<forall>k \<in> set (keys a). k \<in> set (keys b) \<and> deepEqual (value_at a k) (value_at b k)"
      by (subst (asm) deepEqual.simps, simp add: Let_def list_all_iff split: if_splits)+
    have da: "distinct (keys a)" and db: "distinct (keys b)"
      using "1.prems" by (simp_all add: distinct_keys)
    from all have sub: "set (keys a) \<subseteq> set (keys b)" by blast
    have "card (set (keys a)) = card (set (keys b))"
      using da db len by (simp add: distinct_card)
    with sub have eq: "set (keys a) = set (keys b)"
      by (simp add: card_subset_eq)
    have "\<forall>k \<in> set (keys b). k \<in> set (keys a) \<and> deepEqual (value_at b k) (value_at a k)"
    proof
      fix k assume kb: "k \<in> set (keys b)"
      with eq have ka: "k \<in> set (keys a)" by simp
      with all have "deepEqual (value_at a k) (value_at b k)" by blast
      moreover have "wf_val (value_at a k)" "wf_val (value_at b k)"
        using "1.prems" by (simp_all add: wf_val_value_at)
      ultimately have "deepEqual (value_at b k) (value_at a k)"
        using "1.IH"[OF False objs refl refl _ ka] len by simp
      with ka show "k \<in> set (keys a) \<and> deepEqual (value_at b k) (value_at a k)" by simp
    qed
    moreover from False have "\<not> strict_equals b a" by (simp add: strict_equals_sym)
    ultimately show ?thesis
      using objs len by (subst deepEqual.simps) (simp add: Let_def list_all_iff)
  qed
qed

text \<open>
  Claim C6. \<open>deepEqual\<close> is symmetric: for all values \<open>a\<close> and \<open>b\<close> (primitives, \<open>null\<close>,
  arrays, mappings, in any combination), \<open>deepEqual a b\<close> and \<open>deepEqual b a\<close> are the
  same boolean. The values are JavaScript values: no object has the same key twice
  (\<open>wf_val\<close>).
\<close>

theorem deepEqual_symmetric:
  "wf_val a \<Longrightarrow> wf_val b \<Longrightarrow> deepEqual a b = deepEqual b a"
  using deepEqual_sym_imp[of a b] deepEqual_sym_imp[of b a] by blast

theorem deepEqual_symmetric_witness:
  "wf_val (Obj 0 [(''a'', Num 1), (''b'', Arr 1 [Num 2, Null])])
   \<and> wf_val (Obj 2 [(''b'', Arr 3 [Num 2, Null]), (''a'', Num 1)])
   \<and> deepEqual (Obj 0 [(''a'', Num 1), (''b'', Arr 1 [Num 2, Null])])
        (Obj 2 [(''b'', Arr 3 [Num 2, Null]), (''a'', Num 1)])
   \<and> deepEqual (Obj 2 [(''b'', Arr 3 [Num 2, Null]), (''a'', Num 1)])
        (Obj 0 [(''a'', Num 1), (''b'', Arr 1 [Num 2, Null])])"
proof -
  have a: "wf_val (Obj 0 [(''a'', Num 1), (''b'', Arr 1 [Num 2, Null])])" by simp
  have b: "wf_val (Obj 2 [(''b'', Arr 3 [Num 2, Null]), (''a'', Num 1)])" by simp
  have e: "deepEqual (Obj 0 [(''a'', Num 1), (''b'', Arr 1 [Num 2, Null])])
        (Obj 2 [(''b'', Arr 3 [Num 2, Null]), (''a'', Num 1)])"
    by code_simp
  from a b e deepEqual_symmetric[OF a b] show ?thesis by simp
qed


subsection \<open>deepMerge\<close>

text \<open>
  \<open>deepMerge\<close> is the loop \<open>merge_key\<close> over the keys of the source.
\<close>

lemma deepMerge_fold:
  "deepMerge c target source =
     (case fold (merge_key target source) (keys source) (Inr (own_props target, Suc c)) of
        Inl e \<Rightarrow> Inl e
      | Inr (output, c') \<Rightarrow> Inr (Obj c output, c'))"
  by (subst deepMerge.simps) (simp add: merge_key_def[abs_def])

lemma is_object_cases: "is_object v \<longleftrightarrow> (\<exists>r xs. v = Arr r xs) \<or> (\<exists>r kvs. v = Obj r kvs)"
  by (cases v) (simp_all add: is_object_def)





lemma store_output_update:
  "k \<noteq> ''__proto__'' \<or> k \<in> fst ` set out \<Longrightarrow> store_output out k v c = Inr (AList.update k v out, c)"
  by (auto simp: store_output_def assign_prop_def)













text \<open>
  Merging with the empty object: into an empty target the loop copies the properties
  of the source one by one; from an empty source it copies nothing.
\<close>

lemma update_append: "k \<notin> fst ` set xs \<Longrightarrow> AList.update k v xs = xs @ [(k, v)]"
  by (induction xs) auto

lemma merge_key_empty_target:
  "merge_key (Obj r []) s k (Inr (out, c1)) = store_output out k (value_at s k) c1"
  by (simp add: merge_key_def keys_def Let_def)

lemma fold_merge_key_copy:
  "distinct (map fst (xs @ ys)) \<Longrightarrow> ''__proto__'' \<notin> fst ` set ys \<Longrightarrow>
   (\<And>k v. (k, v) \<in> set ys \<Longrightarrow> value_at s k = v) \<Longrightarrow>
   fold (merge_key (Obj r []) s) (map fst ys) (Inr (xs, c1)) = Inr (xs @ ys, c1)"
proof (induction ys arbitrary: xs)
  case Nil
  then show ?case by simp
next
  case (Cons p ys)
  obtain k v where p: "p = (k, v)" by (cases p)
  from Cons.prems(1) p have "k \<notin> fst ` set xs" by auto
  moreover from Cons.prems(3) p have "value_at s k = v" by simp
  moreover from Cons.prems(2) p have "k \<noteq> ''__proto__''" by auto
  ultimately have step: "merge_key (Obj r []) s k (Inr (xs, c1)) = Inr (xs @ [(k, v)], c1)"
    by (simp add: merge_key_empty_target store_output_update update_append)
  have "fold (merge_key (Obj r []) s) (map fst ys) (Inr (xs @ [(k, v)], c1)) = Inr ((xs @ [(k, v)]) @ ys, c1)"
    using Cons.prems p by (intro Cons.IH) auto
  with step p show ?case by simp
qed

lemma deepMerge_into_empty:
  assumes "distinct (map fst kvs)" and "''__proto__'' \<notin> fst ` set kvs"
  shows "deepMerge c (Obj e []) (Obj r kvs) = Inr (Obj c kvs, Suc c)"
proof -
  have "value_at (Obj r kvs) k = v" if "(k, v) \<in> set kvs" for k v
    using that assms by simp
  with assms have "fold (merge_key (Obj e []) (Obj r kvs)) (map fst kvs) (Inr ([], Suc c)) = Inr ([] @ kvs, Suc c)"
    by (intro fold_merge_key_copy) auto
  then show ?thesis by (simp add: deepMerge_fold keys_def)
qed

lemma deepMerge_with_empty: "deepMerge c (Obj r kvs) (Obj e []) = Inr (Obj c kvs, Suc c)"
  by (simp add: deepMerge_fold keys_def)

lemma strict_equals_refl: "v \<noteq> NaN \<Longrightarrow> strict_equals v v"
  by (cases v) simp_all

lemma deepEqual_same_props:
  assumes "NaN \<notin> snd ` set kvs"
  shows "deepEqual (Obj a kvs) (Obj b kvs)"
proof -
  have "deepEqual (value_at (Obj a kvs) k) (value_at (Obj b kvs) k)" if "k \<in> fst ` set kvs" for k
  proof -
    from that obtain v where v: "map_of kvs k = Some v"
      by (metis domD dom_map_of_conv_image_fst)
    then have "v \<in> snd ` set kvs" by (metis map_of_SomeD snd_conv image_eqI)
    with assms have "v \<noteq> NaN" by metis
    then have "strict_equals v v" by (rule strict_equals_refl)
    with v show ?thesis by (subst deepEqual.simps) simp
  qed
  then show ?thesis
    by (subst deepEqual.simps) (simp add: keys_def list_all_iff)
qed

text \<open>
  An object that owns a property named \<^verbatim>\<open>hasOwnProperty\<close> is not a target that
  \<open>deepMerge\<close> can merge an object into: for the target \<^verbatim>\<open>{hasOwnProperty: 1, a: 5}\<close>
  and the source \<^verbatim>\<open>{a: {}}\<close> the call \<^verbatim>\<open>target.hasOwnProperty(key)\<close> throws. A
  property named \<^verbatim>\<open>__proto__\<close> of the source, as \<^verbatim>\<open>JSON.parse\<close> makes it, is not
  copied: a primitive is ignored.
\<close>

lemma deepMerge_hasOwnProperty_shadowed:
  "deepMerge 3 (Obj 0 [(''hasOwnProperty'', Num 1), (''a'', Num 5)]) (Obj 1 [(''a'', Obj 2 [])])
     = Inl TypeError"
  by code_simp

lemma deepMerge_proto_ignored:
  "deepMerge 2 (Obj 0 []) (Obj 1 [(''__proto__'', Num 1)]) = Inr (Obj 2 [], 3)"
  by code_simp




text \<open>
  Claim C7, as amended. For every mapping \<open>m\<close> none of whose property values is \<open>NaN\<close>
  and none of whose properties is named \<^verbatim>\<open>__proto__\<close>, \<open>deepMerge m {}\<close> and
  \<open>deepMerge {} m\<close> return a value that is deep-equal to \<open>m\<close>. The values of the
  properties are shared with \<open>m\<close>, so they are equal by reference or as primitives,
  whatever they hold inside.
\<close>

theorem deepMerge_empty_identity:
  assumes "distinct (map fst kvs)" and "NaN \<notin> snd ` set kvs" and "''__proto__'' \<notin> fst ` set kvs"
  shows "(\<exists>x c'. deepMerge c (Obj r kvs) (Obj e []) = Inr (x, c') \<and> deepEqual x (Obj r kvs)) \<and>
         (\<exists>y c'. deepMerge c (Obj e []) (Obj r kvs) = Inr (y, c') \<and> deepEqual y (Obj r kvs))"
  using assms by (simp add: deepMerge_with_empty deepMerge_into_empty deepEqual_same_props)

theorem deepMerge_empty_identity_witness:
  "distinct (map fst [(''a'', Num 1), (''b'', Obj 3 [(''c'', NaN)])])
   \<and> NaN \<notin> snd ` set [(''a'', Num 1), (''b'', Obj 3 [(''c'', NaN)])]
   \<and> ''__proto__'' \<notin> fst ` set [(''a'', Num 1), (''b'', Obj 3 [(''c'', NaN)])]
   \<and> (\<exists>x c'. deepMerge 5 (Obj 0 [(''a'', Num 1), (''b'', Obj 3 [(''c'', NaN)])]) (Obj 4 []) = Inr (x, c')
          \<and> deepEqual x (Obj 0 [(''a'', Num 1), (''b'', Obj 3 [(''c'', NaN)])]))
   \<and> (\<exists>y c'. deepMerge 5 (Obj 4 []) (Obj 0 [(''a'', Num 1), (''b'', Obj 3 [(''c'', NaN)])]) = Inr (y, c')
          \<and> deepEqual y (Obj 0 [(''a'', Num 1), (''b'', Obj 3 [(''c'', NaN)])]))"
  using deepMerge_empty_identity[of "[(''a'', Num 1), (''b'', Obj 3 [(''c'', NaN)])]" 5 0 4]
  by simp

text \<open>
  Claim C7 as stated fails for \<^verbatim>\<open>m = {a: NaN}\<close>: both merges return \<^verbatim>\<open>{a: NaN}\<close>, and
  \<open>deepEqual\<close> compares \<open>NaN\<close> with \<open>NaN\<close> by \<^verbatim>\<open>===\<close>.
\<close>

theorem deepMerge_empty_identity_NaN:
  "deepMerge 2 (Obj 0 [(''a'', NaN)]) (Obj 1 []) = Inr (Obj 2 [(''a'', NaN)], 3)
   \<and> deepMerge 2 (Obj 1 []) (Obj 0 [(''a'', NaN)]) = Inr (Obj 2 [(''a'', NaN)], 3)
   \<and> \<not> deepEqual (Obj 2 [(''a'', NaN)]) (Obj 0 [(''a'', NaN)])"
  by code_simp


subsection \<open>deepMerge on a store\<close>



























text \<open>
  Where the target owns a property named \<^verbatim>\<open>hasOwnProperty\<close> the call throws once the
  source has an object to merge: \<^verbatim>\<open>deepMerge({hasOwnProperty: 1, a: {}}, {a: {}})\<close>.
  The arguments are unchanged then as well.
\<close>

lemma deepMerge_st_hasOwnProperty_shadowed:
  "deepMerge_st 2
     [ObjectCell [(''hasOwnProperty'', VNum 1), (''a'', VRef 1)], ObjectCell [],
      ObjectCell [(''a'', VRef 3)], ObjectCell []] (VRef 0) (VRef 2)
   = Some ([ObjectCell [(''hasOwnProperty'', VNum 1), (''a'', VRef 1)], ObjectCell [],
            ObjectCell [(''a'', VRef 3)], ObjectCell [],
            ObjectCell [(''hasOwnProperty'', VNum 1), (''a'', VRef 1)]], Inl TypeError)"
  by code_simp




subsection \<open>setNestedValue\<close>








lemma passable_is_mapping: "parts \<noteq> [] \<Longrightarrow> passable current parts \<Longrightarrow> is_mapping current"
  by (cases "(current, parts)" rule: passable.cases) auto










subsection \<open>String case conversion\<close>

lemma splitIntoWords_single_word:
  "\<forall>c \<in> set str. \<not> is_separator c \<Longrightarrow> splitIntoWords str = [str]"
  by (induction str) simp_all

text \<open>
  Claim C10. For every non-empty string without white space, hyphen and underscore,
  \<open>toSentenceCase\<close> returns the first code unit in upper case, the rest in lower
  case and one space after them: \<^verbatim>\<open>' '\<close> is appended whether or not more words follow.
  This holds whatever the case mappings \<open>toUpperCase\<close> and \<open>toLowerCase\<close> are, as long
  as the lower case of the empty string is the empty string.
\<close>

theorem toSentenceCase_single_word:
  assumes "str \<noteq> []" and "\<forall>c \<in> set str. \<not> is_separator c" and "toLowerCase [] = []"
  shows "toSentenceCase toUpperCase toLowerCase str
           = Inr (toUpperCase [hd str] @ toLowerCase (tl str) @ [0x20])"
proof -
  from assms(1) obtain c cs where "str = c # cs" by (cases str) auto
  with splitIntoWords_single_word[OF assms(2)] assms(3) show ?thesis
    by (simp add: toSentenceCase_def)
qed

text \<open>
  The string \<^verbatim>\<open>hELLO\<close>, with the code units 104, 69, 76, 76 and 79, becomes \<^verbatim>\<open>Hello\<close>
  and a space.
\<close>

theorem toSentenceCase_single_word_witness:
  "[104, 69, 76, 76, 79] \<noteq> ([] :: utf16)
   \<and> list_all (\<lambda>c. \<not> is_separator c) [104, 69, 76, 76, 79]
   \<and> ascii_lower [] = []
   \<and> toSentenceCase ascii_upper ascii_lower [104, 69, 76, 76, 79] = Inr [72, 101, 108, 108, 111, 32]"
proof -
  have h: "\<forall>c \<in> set [104, 69, 76, 76, 79]. \<not> is_separator c" by (simp add: is_separator_def)
  have e: "ascii_lower [] = []" by (simp add: ascii_lower_def)
  from toSentenceCase_single_word[of "[104, 69, 76, 76, 79]" ascii_lower ascii_upper] h e
  show ?thesis by (simp add: ascii_upper_def ascii_lower_def)
qed


subsection \<open>generateUUID\<close>

text \<open>
  For a result \<open>x\<close> of \<^verbatim>\<open>Math.random()\<close>, \<^verbatim>\<open>(x * 16) | 0\<close> is one of 0 to 15, so the callback
  returns one hexadecimal digit, and one of \<open>8\<close>, \<open>9\<close>, \<open>a\<close>, \<open>b\<close> for \<open>y\<close>.
\<close>

lemma to_int32_random: "0 \<le> x \<Longrightarrow> x < 1 \<Longrightarrow> to_int32 (x * 16) = \<lfloor>x * 16\<rfloor> \<and> 0 \<le> \<lfloor>x * 16\<rfloor> \<and> \<lfloor>x * 16\<rfloor> < 16"
proof -
  assume a: "0 \<le> x" "x < 1"
  then have 1: "0 \<le> \<lfloor>x * 16\<rfloor>" by simp
  from a have "x * 16 < 16" by simp
  then have 2: "\<lfloor>x * 16\<rfloor> < 16" by (simp add: floor_less_iff)
  from 1 2 a show ?thesis by (simp add: to_int32_def Let_def)
qed

lemma small_int_cases:
  "0 \<le> (r::int) \<Longrightarrow> r < 16 \<Longrightarrow>
   r \<in> {0, 1, 2, 3, 4, 5, 6, 7, 8, 9, 10, 11, 12, 13, 14, 15}"
  by simp arith

lemma toString16_digit: "0 \<le> r \<Longrightarrow> r < 16 \<Longrightarrow> toString16 r = [hex_digits ! nat r]"
  by (simp add: toString16_def hex_of_nat.simps)

lemma uuid_digit_x:
  assumes "0 \<le> x" "x < 1"
  shows "\<exists>d \<in> set hex_digits. uuid_digit x CHR ''x'' = [d]"
proof -
  from to_int32_random[OF assms] have r: "to_int32 (x * 16) = \<lfloor>x * 16\<rfloor>" "0 \<le> \<lfloor>x * 16\<rfloor>" "\<lfloor>x * 16\<rfloor> < 16"
    by simp_all
  then have "uuid_digit x CHR ''x'' = [hex_digits ! nat \<lfloor>x * 16\<rfloor>]"
    by (simp add: uuid_digit_def toString16_digit)
  moreover have "length hex_digits = 16" by (simp add: hex_digits_def)
  with r have "nat \<lfloor>x * 16\<rfloor> < length hex_digits" by linarith
  ultimately show ?thesis by (metis nth_mem)
qed

lemma uuid_digit_y:
  assumes "0 \<le> x" "x < 1"
  shows "\<exists>d \<in> set ''89ab''. uuid_digit x CHR ''y'' = [d]"
proof -
  from to_int32_random[OF assms] have r: "to_int32 (x * 16) = \<lfloor>x * 16\<rfloor>" "0 \<le> \<lfloor>x * 16\<rfloor>" "\<lfloor>x * 16\<rfloor> < 16"
    by simp_all
  define r where "r = \<lfloor>x * 16\<rfloor>"
  from r(2,3) have "r \<in> {0, 1, 2, 3, 4, 5, 6, 7, 8, 9, 10, 11, 12, 13, 14, 15}"
    unfolding r_def by (rule small_int_cases)
  then have "toString16 ((r AND 0x3) OR 0x8) \<in> {''8'', ''9'', ''a'', ''b''}"
    by (auto simp: toString16_def hex_of_nat.simps hex_digits_def)
  with r(1) show ?thesis by (auto simp: uuid_digit_def r_def)
qed

lemma uuid_digit_cases:
  assumes "0 \<le> x" "x < 1"
  shows "\<exists>d. uuid_digit x c = [d] \<and> (if c = CHR ''x'' then d \<in> set hex_digits else d \<in> set ''89ab'')"
  using uuid_digit_x[OF assms] uuid_digit_y[OF assms]
  by (cases "c = CHR ''x''") (auto simp: uuid_digit_def)

lemma replace_xy_pointwise:
  assumes "\<forall>n. 0 \<le> random n \<and> random n < 1"
  shows "list_all2 replaced template (replace_xy random n template)"
proof (induction template arbitrary: n)
  case Nil
  then show ?case by simp
next
  case (Cons c cs)
  from assms have "0 \<le> random n" "random n < 1" by simp_all
  from uuid_digit_cases[OF this, of c] obtain d where
    d: "uuid_digit (random n) c = [d]"
       "if c = CHR ''x'' then d \<in> set hex_digits else d \<in> set ''89ab''" by blast
  show ?case
  proof (cases "c = CHR ''x'' \<or> c = CHR ''y''")
    case True
    with d have "replaced c d" by (auto simp: replaced_def)
    with True d Cons.IH[of "Suc n"] show ?thesis by simp
  next
    case False
    with Cons.IH[of n] show ?thesis by (simp add: replaced_def)
  qed
qed

lemma template_facts:
  "length uuid_template = 36"
  "uuid_template ! 8 = CHR ''-''" "uuid_template ! 13 = CHR ''-''"
  "uuid_template ! 18 = CHR ''-''" "uuid_template ! 23 = CHR ''-''"
  "uuid_template ! 14 = CHR ''4''" "uuid_template ! 19 = CHR ''y''"
  by (simp_all add: uuid_template_def)

lemma template_hex:
  "\<forall>i \<in> set [0..<36]. i \<notin> {8, 13, 18, 23} \<longrightarrow> uuid_template ! i \<in> set ''xy4''"
  by code_simp

text \<open>
  Claim C8. Whatever the random source returns (each result is in \<open>[0, 1)\<close>), the
  string that \<open>generateUUID\<close> returns has 36 characters, a hyphen at positions 8, 13,
  18 and 23, the character \<open>4\<close> at position 14, one of \<open>8\<close>, \<open>9\<close>, \<open>a\<close>, \<open>b\<close> at position 19,
  and a hexadecimal digit at every other position.
\<close>

theorem generateUUID_format:
  assumes "\<forall>n. 0 \<le> random n \<and> random n < 1"
  shows "length (generateUUID random) = 36
       \<and> generateUUID random ! 8 = CHR ''-''
       \<and> generateUUID random ! 13 = CHR ''-''
       \<and> generateUUID random ! 18 = CHR ''-''
       \<and> generateUUID random ! 23 = CHR ''-''
       \<and> generateUUID random ! 14 = CHR ''4''
       \<and> generateUUID random ! 19 \<in> set ''89ab''
       \<and> (\<forall>i < 36. i \<notin> {8, 13, 18, 23} \<longrightarrow> generateUUID random ! i \<in> set ''0123456789abcdef'')"
proof -
  have all: "list_all2 replaced uuid_template (generateUUID random)"
    unfolding generateUUID_def by (rule replace_xy_pointwise[OF assms])
  then have len: "length (generateUUID random) = 36"
    by (simp add: list_all2_lengthD[symmetric] template_facts)
  have at: "replaced (uuid_template ! i) (generateUUID random ! i)" if "i < 36" for i
    using all that by (simp add: list_all2_conv_all_nth template_facts)
  have hex: "generateUUID random ! i \<in> set ''0123456789abcdef''" if "i < 36" "i \<notin> {8, 13, 18, 23}" for i
  proof -
    from that template_hex have "uuid_template ! i \<in> set ''xy4''" by simp
    with at[OF that(1)] show ?thesis by (auto simp: replaced_def hex_digits_def)
  qed
  from at[of 8] at[of 13] at[of 18] at[of 23] at[of 14] at[of 19] len hex
  show ?thesis by (simp add: replaced_def template_facts)
qed

theorem generateUUID_format_witness:
  "(\<forall>n. 0 \<le> real (n mod 16) / 16 \<and> real (n mod 16) / 16 < 1)
   \<and> length (generateUUID (\<lambda>n. real (n mod 16) / 16)) = 36
   \<and> generateUUID (\<lambda>n. real (n mod 16) / 16) ! 8 = CHR ''-''
   \<and> generateUUID (\<lambda>n. real (n mod 16) / 16) ! 14 = CHR ''4''
   \<and> generateUUID (\<lambda>n. real (n mod 16) / 16) ! 19 \<in> set ''89ab''
   \<and> generateUUID (\<lambda>n. real (n mod 16) / 16) ! 0 \<in> set ''0123456789abcdef''"
proof -
  have h: "\<forall>n. 0 \<le> real (n mod 16) / 16 \<and> real (n mod 16) / 16 < 1" by simp
  from generateUUID_format[OF h] h show ?thesis by simp
qed


subsection \<open>validatePassword\<close>

text \<open>
  The steps of \<open>class_items\<close> on a pattern that is given: the closing bracket, a
  single character, a range, an escaped character.
\<close>

lemma class_items_end: "class_items (CHR '']'' # rest) acc = Inr (rev acc, rest)"
  by (subst class_items.simps) simp

lemma class_items_single:
  "c \<noteq> CHR '']'' \<Longrightarrow> c \<noteq> CHR 0x5C \<Longrightarrow> d \<noteq> CHR ''-'' \<Longrightarrow>
   class_items (c # d # s) acc = class_items (d # s) (Single c # acc)"
  by (subst class_items.simps) (simp split: list.split)

lemma class_items_between:
  "c \<noteq> CHR '']'' \<Longrightarrow> c \<noteq> CHR 0x5C \<Longrightarrow> e \<noteq> CHR '']'' \<Longrightarrow> e \<noteq> CHR 0x5C \<Longrightarrow>
   code_unit c \<le> code_unit e \<Longrightarrow>
   class_items (c # CHR ''-'' # e # s) acc = class_items s (Between c e # acc)"
  by (subst class_items.simps) (cases s; simp)

lemma class_items_escaped:
  "d \<notin> set ''abcdefghijklmnopqrstuvwxyzABCDEFGHIJKLMNOPQRSTUVWXYZ0123456789'' \<Longrightarrow> e \<noteq> CHR ''-'' \<Longrightarrow>
   class_items (CHR 0x5C # d # e # s) acc = class_items (e # s) (Single d # acc)"
  by (subst class_items.simps) (simp split: list.split)

text \<open>
  The regular expression literals of the source, \<^verbatim>\<open>/[a-z]/\<close>, \<^verbatim>\<open>/[A-Z]/\<close>, \<^verbatim>\<open>/[0-9]/\<close> and
  the one of the Latin test, read as \<open>new_RegExp\<close> reads them.
\<close>

lemma regex_literals:
  "new_RegExp ''[a-z]'' = Inr lowercase_regex"
  "new_RegExp ''[A-Z]'' = Inr uppercase_regex"
  "new_RegExp ''[0-9]'' = Inr numeric_regex"
  "new_RegExp (''[^a-zA-Z0-9!@#$%^&*()'' @ [CHR 0x5C] @ ''-'' @ [CHR 0x5C] @ ''_+=<>?/''
               @ [CHR 0x5C] @ ''['' @ [CHR 0x5C] @ ''] ]'') = Inr non_latin_regex"
  by (simp_all add: new_RegExp_def class_items_end class_items_single class_items_between
      class_items_escaped code_unit_def lowercase_regex_def uppercase_regex_def
      numeric_regex_def non_latin_regex_def)


text \<open>The pattern that the default symbols give.\<close>

lemma default_symbol_pattern:
  "new_RegExp (''['' @ ''!@#$%^&*()-_+=<>?/[]'' @ '']'') =
     Inr [CharClass False
            (map Single ''!@#$%^&*('' @ [Between CHR '')'' CHR ''_''] @ map Single ''+=<>?/[''),
          Literal CHR '']'']"
  by (simp add: new_RegExp_def class_items_end class_items_single class_items_between code_unit_def)

text \<open>
  A pattern of a class and a literal character matches only in a string that holds the
  literal character.
\<close>

lemma matches_class_then_literal:
  "matches_at_start [CharClass n items, Literal d] s \<Longrightarrow> d \<in> set s"
proof -
  assume m: "matches_at_start [CharClass n items, Literal d] s"
  then obtain c s1 where s: "s = c # s1" by (cases s) auto
  with m obtain c2 s2 where "s1 = c2 # s2" by (cases s1) auto
  with m s show ?thesis by simp
qed

lemma regex_test_needs_literal:
  "regex_test [CharClass n items, Literal d] s \<Longrightarrow> d \<in> set s"
proof (induction s)
  case Nil
  then show ?case by simp
next
  case (Cons c s)
  then show ?case
    using matches_class_then_literal[of n items d "c # s"]
    by (auto simp del: matches_at_start.simps)
qed

text \<open>
  Claim C9. With the default configuration, \<open>validatePassword\<close> returns \<open>false\<close> for
  every password that does not contain the character \<^verbatim>\<open>]\<close>: the pattern built from the
  default symbols is a class, closed by the \<^verbatim>\<open>]\<close> of the symbols, and a literal \<^verbatim>\<open>]\<close>.
\<close>

theorem validatePassword_needs_bracket:
  assumes "CHR '']'' \<notin> set password"
  shows "validatePassword password default_config = Inr False"
proof -
  have "\<not> regex_test [CharClass False
            (map Single ''!@#$%^&*('' @ [Between CHR '')'' CHR ''_''] @ map Single ''+=<>?/[''),
          Literal CHR '']''] password"
    using assms regex_test_needs_literal by blast
  then show ?thesis
    using default_symbol_pattern
    by (simp add: validatePassword_def default_config_def default_to_def Let_def)
qed

theorem validatePassword_needs_bracket_witness:
  "CHR '']'' \<notin> set ''Passw0rd!'' \<and> validatePassword ''Passw0rd!'' default_config = Inr False"
  using validatePassword_needs_bracket[of "''Passw0rd!''"] by simp

end
